theory Spec2Isabelle
  imports Main "HOL-Library.Char_ord" "HOL-Library.List_Lexorder"
begin

section \<open>Python strings\<close>

text \<open>
  Text is a \<^typ>\<open>string\<close>: one \<^typ>\<open>char\<close> per code point, for code points below 256.
  The character classes below are Python's \<^verbatim>\<open>str.isspace\<close> and the \<^verbatim>\<open>\w\<close> of
  \<^verbatim>\<open>re\<close> on that range.
\<close>

datatype py_error = IndexError | AttributeError string | ValueError string | OSError

definition is_space :: "char \<Rightarrow> bool" where
  "is_space c = (CHR 0x09 \<le> c \<and> c \<le> CHR 0x0D \<or> CHR 0x1C \<le> c \<and> c \<le> CHR 0x20
                 \<or> c = CHR 0x85 \<or> c = CHR 0xA0)"

definition is_upper_az :: "char \<Rightarrow> bool" where
  "is_upper_az c = (CHR ''A'' \<le> c \<and> c \<le> CHR ''Z'')"

definition is_lower_az :: "char \<Rightarrow> bool" where
  "is_lower_az c = (CHR ''a'' \<le> c \<and> c \<le> CHR ''z'')"

definition is_digit :: "char \<Rightarrow> bool" where
  "is_digit c = (CHR ''0'' \<le> c \<and> c \<le> CHR ''9'')"

definition is_ident_char :: "char \<Rightarrow> bool" where
  \<comment> \<open>the class \<^verbatim>\<open>[a-zA-Z0-9_]\<close>\<close>
  "is_ident_char c = (is_lower_az c \<or> is_upper_az c \<or> is_digit c \<or> c = CHR ''_'')"

definition is_word :: "char \<Rightarrow> bool" where
  \<comment> \<open>\<^verbatim>\<open>\w\<close>: alphanumeric code points and the underscore\<close>
  "is_word c = (is_ident_char c
                \<or> c \<in> set [CHR 0xAA, CHR 0xB2, CHR 0xB3, CHR 0xB5, CHR 0xB9, CHR 0xBA,
                             CHR 0xBC, CHR 0xBD, CHR 0xBE]
                \<or> CHR 0xC0 \<le> c \<and> c \<le> CHR 0xD6 \<or> CHR 0xD8 \<le> c \<and> c \<le> CHR 0xF6
                \<or> CHR 0xF8 \<le> c)"

definition upper_letters :: string where
  "upper_letters = ''ABCDEFGHIJKLMNOPQRSTUVWXYZ''"

definition lower_letters :: string where
  "lower_letters = ''abcdefghijklmnopqrstuvwxyz''"

definition upper_char :: "char \<Rightarrow> char" where
  "upper_char c = (case map_of (zip lower_letters upper_letters) c of None \<Rightarrow> c | Some d \<Rightarrow> d)"

definition lower_char :: "char \<Rightarrow> char" where
  "lower_char c = (case map_of (zip upper_letters lower_letters) c of None \<Rightarrow> c | Some d \<Rightarrow> d)"

definition upper :: "string \<Rightarrow> string" where
  \<comment> \<open>\<^verbatim>\<open>str.upper\<close> on the letters a-z. The program only asks whether the result
      contains \<^verbatim>\<open>NOT NULL\<close>, \<^verbatim>\<open>PRIMARY KEY\<close>, \<^verbatim>\<open>DEFAULT\<close> or \<^verbatim>\<open>UNIQUE\<close>;
      of the other characters below 256 Python maps one onto letters, the sharp s onto SS,
      and no S is in these words\<close>
  "upper s = map upper_char s"

definition lower :: "string \<Rightarrow> string" where
  "lower s = map lower_char s"

definition startswith :: "string \<Rightarrow> string \<Rightarrow> bool" where
  "startswith s p = (take (length p) s = p)"

definition endswith :: "string \<Rightarrow> string \<Rightarrow> bool" where
  "endswith s p = (length p \<le> length s \<and> drop (length s - length p) s = p)"

primrec contains :: "string \<Rightarrow> string \<Rightarrow> bool" where
  \<comment> \<open>\<^verbatim>\<open>needle in hay\<close>\<close>
  "contains [] needle = (needle = [])"
| "contains (c # cs) needle = (startswith (c # cs) needle \<or> contains cs needle)"

primrec count_from :: "nat \<Rightarrow> string \<Rightarrow> string \<Rightarrow> nat" where
  \<comment> \<open>\<^verbatim>\<open>hay.count(needle)\<close> for a non-empty needle: occurrences that do not overlap,
      from the left; the first argument is the number of characters still covered by the
      last occurrence\<close>
  "count_from skip [] needle = 0"
| "count_from skip (c # cs) needle =
     (if 0 < skip then count_from (skip - 1) cs needle
      else if startswith (c # cs) needle then Suc (count_from (length needle - 1) cs needle)
      else count_from 0 cs needle)"

definition count_sub :: "string \<Rightarrow> string \<Rightarrow> nat" where
  "count_sub hay needle = count_from 0 hay needle"

definition lstrip_chars :: "(char \<Rightarrow> bool) \<Rightarrow> string \<Rightarrow> string" where
  "lstrip_chars p s = dropWhile p s"

definition rstrip_chars :: "(char \<Rightarrow> bool) \<Rightarrow> string \<Rightarrow> string" where
  "rstrip_chars p s = rev (dropWhile p (rev s))"

definition strip_chars :: "(char \<Rightarrow> bool) \<Rightarrow> string \<Rightarrow> string" where
  "strip_chars p s = rstrip_chars p (lstrip_chars p s)"

definition strip :: "string \<Rightarrow> string" where
  \<comment> \<open>\<^verbatim>\<open>s.strip()\<close>\<close>
  "strip s = strip_chars is_space s"

definition is_quote :: "char \<Rightarrow> bool" where
  \<comment> \<open>the characters of \<^verbatim>\<open>'`"'\<close>\<close>
  "is_quote c = (c = CHR 0x60 \<or> c = CHR 0x22)"

definition strip_quotes :: "string \<Rightarrow> string" where
  \<comment> \<open>\<^verbatim>\<open>s.strip('`"')\<close>\<close>
  "strip_quotes s = strip_chars is_quote s"

primrec split_on :: "char \<Rightarrow> string \<Rightarrow> string list" where
  \<comment> \<open>\<^verbatim>\<open>s.split(c)\<close> for a one-character separator\<close>
  "split_on sep [] = [[]]"
| "split_on sep (c # cs) =
     (if c = sep then [] # split_on sep cs
      else (case split_on sep cs of
              [] \<Rightarrow> [[c]]
            | w # ws \<Rightarrow> (c # w) # ws))"

primrec split_ws_from :: "string \<Rightarrow> string \<Rightarrow> string list" where
  \<comment> \<open>\<^verbatim>\<open>s.split()\<close>: the maximal runs of non-space characters; the first argument is
      the run being read, reversed\<close>
  "split_ws_from cur [] = (if cur = [] then [] else [rev cur])"
| "split_ws_from cur (c # cs) =
     (if is_space c then (if cur = [] then split_ws_from [] cs else rev cur # split_ws_from [] cs)
      else split_ws_from (c # cur) cs)"

definition split_ws :: "string \<Rightarrow> string list" where
  "split_ws s = split_ws_from [] s"

definition truthy :: "string option \<Rightarrow> bool" where
  \<comment> \<open>Python's truth value of a group: neither None nor the empty string\<close>
  "truthy g = (case g of None \<Rightarrow> False | Some s \<Rightarrow> s \<noteq> [])"



definition digit_char :: "nat \<Rightarrow> char" where
  "digit_char d = ''0123456789'' ! d"

fun show_nat :: "nat \<Rightarrow> string" where
  \<comment> \<open>the decimal digits of a number, as an f-string prints it\<close>
  "show_nat n = (if n < 10 then [digit_char n] else show_nat (n div 10) @ [digit_char (n mod 10)])"

definition quoted :: "string \<Rightarrow> string" where
  \<comment> \<open>the text between single quotes\<close>
  "quoted s = CHR 0x27 # s @ [CHR 0x27]"

section \<open>Regular expressions\<close>

text \<open>
  The patterns of the program, as syntax trees, and a backtracking matcher with the priorities
  of Python's \<^verbatim>\<open>re\<close>: the left alternative first, a greedy repetition as long as
  possible first, a lazy one as short as possible first. A matcher takes the state at the
  current position and the continuation that must accept the state it reaches.
\<close>

type_synonym groups = "nat \<Rightarrow> string option"

record mstate =
  ms_pos :: nat
  ms_prev :: "char option"
  ms_rest :: string
  ms_groups :: groups

datatype rx =
    Eps
  | Cls "char \<Rightarrow> bool"
  | Seq rx rx
  | Alt rx rx
  | Star rx
  | Lazy rx
  | Grp nat rx
  | WordB
  | Bol

type_synonym matcher = "mstate \<Rightarrow> (mstate \<Rightarrow> mstate option) \<Rightarrow> mstate option"

primrec star_greedy :: "matcher \<Rightarrow> nat \<Rightarrow> matcher" where
  "star_greedy f 0 s k = k s"
| "star_greedy f (Suc n) s k =
     (case f s (\<lambda>s'. if ms_pos s < ms_pos s' then star_greedy f n s' k else None) of
        Some r \<Rightarrow> Some r
      | None \<Rightarrow> k s)"

primrec star_lazy :: "matcher \<Rightarrow> nat \<Rightarrow> matcher" where
  "star_lazy f 0 s k = k s"
| "star_lazy f (Suc n) s k =
     (case k s of
        Some r \<Rightarrow> Some r
      | None \<Rightarrow> f s (\<lambda>s'. if ms_pos s < ms_pos s' then star_lazy f n s' k else None))"

definition at_word_boundary :: "mstate \<Rightarrow> bool" where
  "at_word_boundary s =
     ((case ms_prev s of None \<Rightarrow> False | Some c \<Rightarrow> is_word c)
      \<noteq> (case ms_rest s of [] \<Rightarrow> False | c # _ \<Rightarrow> is_word c))"

primrec rmatch :: "rx \<Rightarrow> matcher" where
  "rmatch Eps s k = k s"
| "rmatch (Cls p) s k =
     (case ms_rest s of
        [] \<Rightarrow> None
      | c # cs \<Rightarrow>
          if p c then k (s\<lparr>ms_pos := Suc (ms_pos s), ms_prev := Some c, ms_rest := cs\<rparr>)
          else None)"
| "rmatch (Seq a b) s k = rmatch a s (\<lambda>s'. rmatch b s' k)"
| "rmatch (Alt a b) s k = (case rmatch a s k of Some r \<Rightarrow> Some r | None \<Rightarrow> rmatch b s k)"
| "rmatch (Star a) s k = star_greedy (rmatch a) (length (ms_rest s)) s k"
| "rmatch (Lazy a) s k = star_lazy (rmatch a) (length (ms_rest s)) s k"
| "rmatch (Grp i a) s k =
     rmatch a s (\<lambda>s'. k (s'\<lparr>ms_groups :=
                              (ms_groups s')(i \<mapsto> take (ms_pos s' - ms_pos s) (ms_rest s))\<rparr>))"
| "rmatch WordB s k = (if at_word_boundary s then k s else None)"
| "rmatch Bol s k = (if ms_pos s = 0 then k s else None)"

text \<open>The shorthands of the pattern language.\<close>

definition seqs :: "rx list \<Rightarrow> rx" where
  "seqs rs = foldr Seq rs Eps"

definition alts :: "rx list \<Rightarrow> rx" where
  \<comment> \<open>\<^verbatim>\<open>a|b|c\<close>; never used on the empty list\<close>
  "alts rs = foldr Alt (butlast rs) (last rs)"

definition is_char :: "char \<Rightarrow> char \<Rightarrow> bool" where
  "is_char c x = (x = c)"

definition excluded :: "string \<Rightarrow> char \<Rightarrow> bool" where
  "excluded cs x = (x \<notin> set cs)"

definition included :: "string \<Rightarrow> char \<Rightarrow> bool" where
  "included cs x = (x \<in> set cs)"

definition same_letter :: "char \<Rightarrow> char \<Rightarrow> bool" where
  \<comment> \<open>equal up to the case of a letter a-z\<close>
  "same_letter c x = (lower_char x = lower_char c)"

definition ch :: "char \<Rightarrow> rx" where
  "ch c = Cls (is_char c)"

definition not_in :: "string \<Rightarrow> rx" where
  \<comment> \<open>\<^verbatim>\<open>[^...]\<close>\<close>
  "not_in cs = Cls (excluded cs)"

definition one_of :: "string \<Rightarrow> rx" where
  "one_of cs = Cls (included cs)"

definition lit :: "string \<Rightarrow> rx" where
  "lit w = seqs (map ch w)"

definition liti :: "string \<Rightarrow> rx" where
  \<comment> \<open>a literal under \<^verbatim>\<open>re.IGNORECASE\<close>\<close>
  "liti w = seqs (map (\<lambda>c. Cls (same_letter c)) w)"

definition plus :: "rx \<Rightarrow> rx" where
  "plus r = Seq r (Star r)"

definition opt :: "rx \<Rightarrow> rx" where
  "opt r = Alt r Eps"

definition sp0 :: rx where
  \<comment> \<open>\<^verbatim>\<open>\s*\<close>\<close>
  "sp0 = Star (Cls is_space)"

definition sp1 :: rx where
  \<comment> \<open>\<^verbatim>\<open>\s+\<close>\<close>
  "sp1 = plus (Cls is_space)"

definition word1 :: rx where
  \<comment> \<open>\<^verbatim>\<open>\w+\<close>\<close>
  "word1 = plus (Cls is_word)"

record rmatched =
  m_start :: nat
  m_end :: nat
  m_text :: string
  m_groups :: groups

definition match_here :: "rx \<Rightarrow> char option \<Rightarrow> nat \<Rightarrow> string \<Rightarrow> rmatched option" where
  \<comment> \<open>the match that starts exactly at this position, if there is one\<close>
  "match_here r prev pos rest =
     (case rmatch r \<lparr>ms_pos = pos, ms_prev = prev, ms_rest = rest, ms_groups = Map.empty\<rparr> Some of
        None \<Rightarrow> None
      | Some s \<Rightarrow> Some \<lparr>m_start = pos, m_end = ms_pos s,
                        m_text = take (ms_pos s - pos) rest, m_groups = ms_groups s\<rparr>)"

primrec scan :: "rx \<Rightarrow> nat \<Rightarrow> char option \<Rightarrow> nat \<Rightarrow> string \<Rightarrow> rmatched list" where
  \<comment> \<open>\<^verbatim>\<open>re.finditer\<close>: the matches from left to right, none overlapping another; the
      second argument counts the characters still covered by the last match. Every pattern
      of the program consumes at least one character.\<close>
  "scan r skip prev pos [] =
     (if 0 < skip then []
      else (case match_here r prev pos [] of None \<Rightarrow> [] | Some m \<Rightarrow> [m]))"
| "scan r skip prev pos (c # cs) =
     (if 0 < skip then scan r (skip - 1) (Some c) (Suc pos) cs
      else (case match_here r prev pos (c # cs) of
              None \<Rightarrow> scan r 0 (Some c) (Suc pos) cs
            | Some m \<Rightarrow> m # scan r (m_end m - pos - 1) (Some c) (Suc pos) cs))"

definition finditer :: "rx \<Rightarrow> string \<Rightarrow> rmatched list" where
  "finditer r text = scan r 0 None 0 text"

primrec search_from :: "rx \<Rightarrow> char option \<Rightarrow> nat \<Rightarrow> string \<Rightarrow> rmatched option" where
  "search_from r prev pos [] = match_here r prev pos []"
| "search_from r prev pos (c # cs) =
     (case match_here r prev pos (c # cs) of
        Some m \<Rightarrow> Some m
      | None \<Rightarrow> search_from r (Some c) (Suc pos) cs)"

definition search :: "rx \<Rightarrow> string \<Rightarrow> rmatched option" where
  \<comment> \<open>\<^verbatim>\<open>re.search\<close>\<close>
  "search r text = search_from r None 0 text"

definition match_start :: "rx \<Rightarrow> string \<Rightarrow> rmatched option" where
  \<comment> \<open>\<^verbatim>\<open>re.match\<close>\<close>
  "match_start r text = match_here r None 0 text"

definition matches :: "rx \<Rightarrow> string \<Rightarrow> bool" where
  \<comment> \<open>the truth value of \<^verbatim>\<open>re.search(r, text)\<close>\<close>
  "matches r text = (case search r text of None \<Rightarrow> False | Some _ \<Rightarrow> True)"

definition grp :: "rmatched \<Rightarrow> nat \<Rightarrow> string option" where
  \<comment> \<open>\<^verbatim>\<open>m.group(i)\<close> for \<open>i > 0\<close>\<close>
  "grp m i = m_groups m i"

definition grp_str :: "rmatched \<Rightarrow> nat \<Rightarrow> string" where
  \<comment> \<open>a group that the pattern always sets\<close>
  "grp_str m i = (case m_groups m i of None \<Rightarrow> [] | Some s \<Rightarrow> s)"

section \<open>The schema recognizer\<close>

text \<open>\<^verbatim>\<open>extract_database_schema\<close> and the records of the dictionaries it builds.\<close>

record column =
  col_name :: string
  col_type :: string
  col_nullable :: bool
  col_default :: "string option"

record foreign_key =
  fk_column :: string
  fk_ref_table :: string
  fk_ref_column :: string

record db_index =
  idx_name :: string
  idx_columns :: "string list"
  idx_unique :: bool

record schema =
  table_name :: string
  columns :: "column list"
  primary_keys :: "string list"
  foreign_keys :: "foreign_key list"
  indices :: "db_index list"
  description :: "string option"
  schema_file_path :: string

definition quote_chars :: string where
  \<comment> \<open>the class \<^verbatim>\<open>[\'"]\<close>\<close>
  "quote_chars = [CHR 0x27, CHR 0x22]"

definition name_char :: "char \<Rightarrow> bool" where
  \<comment> \<open>the class \<^verbatim>\<open>[`"\w]\<close>\<close>
  "name_char c = (is_quote c \<or> is_word c)"

definition db_name_pattern :: rx where
  \<comment> \<open>\<^verbatim>\<open>(?:const|let|var|export\s+const)\s+(\w+)_DATABASE_NAME\s*=\s*[\'"]([^\'"]+)[\'"]\<close>\<close>
  "db_name_pattern =
     seqs [alts [lit ''const'', lit ''let'', lit ''var'', seqs [lit ''export'', sp1, lit ''const'']],
           sp1, Grp 1 word1, lit ''_DATABASE_NAME'', sp0, ch CHR ''='', sp0,
           one_of quote_chars, Grp 2 (plus (not_in quote_chars)), one_of quote_chars]"

definition if_not_exists :: rx where
  \<comment> \<open>\<^verbatim>\<open>(?:IF\s+NOT\s+EXISTS\s+)?\<close>\<close>
  "if_not_exists = opt (seqs [liti ''IF'', sp1, liti ''NOT'', sp1, liti ''EXISTS'', sp1])"

definition table_pattern :: rx where
  \<comment> \<open>\<^verbatim>\<open>CREATE\s+TABLE\s+(?:IF\s+NOT\s+EXISTS\s+)?(?:([`"\w]+)|[$]{([^}]+)})\s*\(([^;]+)\)\<close>,
      ignoring case\<close>
  "table_pattern =
     seqs [liti ''CREATE'', sp1, liti ''TABLE'', sp1, if_not_exists,
           Alt (Grp 1 (plus (Cls name_char)))
               (seqs [ch CHR ''$'', ch CHR ''{'', Grp 2 (plus (not_in ''}'')), ch CHR ''}'']),
           sp0, ch CHR ''('', Grp 3 (plus (not_in '';'')), ch CHR '')'']"

definition constraint_head :: rx where
  \<comment> \<open>\<^verbatim>\<open>^\s*(?:CONSTRAINT|PRIMARY\s+KEY|FOREIGN\s+KEY|UNIQUE|CHECK)\<close>, ignoring case\<close>
  "constraint_head =
     seqs [Bol, sp0,
           alts [liti ''CONSTRAINT'', seqs [liti ''PRIMARY'', sp1, liti ''KEY''],
                 seqs [liti ''FOREIGN'', sp1, liti ''KEY''], liti ''UNIQUE'', liti ''CHECK'']]"

definition primary_key_word :: rx where
  \<comment> \<open>\<^verbatim>\<open>PRIMARY\s+KEY\<close>, ignoring case\<close>
  "primary_key_word = seqs [liti ''PRIMARY'', sp1, liti ''KEY'']"

definition pk_pattern :: rx where
  \<comment> \<open>\<^verbatim>\<open>PRIMARY\s+KEY\s*\(([^)]+)\)\<close>, ignoring case\<close>
  "pk_pattern =
     seqs [liti ''PRIMARY'', sp1, liti ''KEY'', sp0, ch CHR ''('', Grp 1 (plus (not_in '')'')),
           ch CHR '')'']"

definition foreign_key_word :: rx where
  \<comment> \<open>\<^verbatim>\<open>FOREIGN\s+KEY\<close>, ignoring case\<close>
  "foreign_key_word = seqs [liti ''FOREIGN'', sp1, liti ''KEY'']"

definition fk_pattern :: rx where
  \<comment> \<open>\<^verbatim>\<open>FOREIGN\s+KEY\s*\(([^)]+)\)\s*REFERENCES\s*([`"\w]+|\${[^}]+})\s*\(([^)]+)\)\<close>,
      ignoring case\<close>
  "fk_pattern =
     seqs [liti ''FOREIGN'', sp1, liti ''KEY'', sp0, ch CHR ''('', Grp 1 (plus (not_in '')'')),
           ch CHR '')'', sp0, liti ''REFERENCES'', sp0,
           Grp 2 (Alt (plus (Cls name_char))
                      (seqs [ch CHR ''$'', ch CHR ''{'', plus (not_in ''}''), ch CHR ''}''])),
           sp0, ch CHR ''('', Grp 3 (plus (not_in '')'')), ch CHR '')'']"

definition default_value_char :: "char \<Rightarrow> bool" where
  \<comment> \<open>the class \<^verbatim>\<open>[^,\s]\<close>\<close>
  "default_value_char c = (c \<noteq> CHR '','' \<and> \<not> is_space c)"

definition default_pattern :: rx where
  \<comment> \<open>\<^verbatim>\<open>DEFAULT\s+([^,\s]+)\<close>, ignoring case\<close>
  "default_pattern = seqs [liti ''DEFAULT'', sp1, Grp 1 (plus (Cls default_value_char))]"

definition index_pattern :: rx where
  \<comment> \<open>\<^verbatim>\<open>CREATE\s+(?:UNIQUE\s+)?INDEX\s+(?:IF\s+NOT\s+EXISTS\s+)?(\w+)\s+ON\s+(?:([`"\w]+)|[$]{([^}]+)})\s*\(([^)]+)\)\<close>,
      ignoring case\<close>
  "index_pattern =
     seqs [liti ''CREATE'', sp1, opt (seqs [liti ''UNIQUE'', sp1]), liti ''INDEX'', sp1,
           if_not_exists, Grp 1 word1, sp1, liti ''ON'', sp1,
           Alt (Grp 2 (plus (Cls name_char)))
               (seqs [ch CHR ''$'', ch CHR ''{'', Grp 3 (plus (not_in ''}'')), ch CHR ''}'']),
           sp0, ch CHR ''('', Grp 4 (plus (not_in '')'')), ch CHR '')'']"

definition collect_db_names :: "string \<Rightarrow> (string \<rightharpoonup> string)" where
  \<comment> \<open>both forms of each constant are stored\<close>
  "collect_db_names content =
     fold (\<lambda>m d. d(grp_str m 1 \<mapsto> grp_str m 2, grp_str m 1 @ ''_DATABASE_NAME'' \<mapsto> grp_str m 2))
          (finditer db_name_pattern content) Map.empty"

definition resolve_table_name :: "(string \<rightharpoonup> string) \<Rightarrow> rmatched \<Rightarrow> string" where
  \<comment> \<open>group 1 is the literal name, group 2 the interpolated variable; the pattern sets one
      of them\<close>
  "resolve_table_name db_names m =
     (if \<not> truthy (grp m 1) then
        (case db_names (grp_str m 2) of
           Some v \<Rightarrow> v
         | None \<Rightarrow> grp_str m 2 @ '' (variable)'')
      else strip_quotes (grp_str m 1))"

primrec split_columns :: "string \<Rightarrow> string list \<Rightarrow> string \<Rightarrow> int \<Rightarrow> string list \<times> string" where
  \<comment> \<open>the loop over the characters of the column text: the lines so far, the current
      line and the parenthesis count\<close>
  "split_columns [] column_lines current_line paren_count = (column_lines, current_line)"
| "split_columns (c # cs) column_lines current_line paren_count =
     (if c = CHR ''('' then split_columns cs column_lines (current_line @ [c]) (paren_count + 1)
      else if c = CHR '')'' then split_columns cs column_lines (current_line @ [c]) (paren_count - 1)
      else if c = CHR '','' \<and> paren_count = 0 then
        split_columns cs
          (column_lines @ [rstrip_chars (is_char CHR '','') (strip (current_line @ [c]))]) []
          paren_count
      else split_columns cs column_lines (current_line @ [c]) paren_count)"

definition column_lines_of :: "string \<Rightarrow> string list" where
  "column_lines_of columns_def =
     (case split_columns columns_def [] [] 0 of
        (column_lines, current_line) \<Rightarrow>
          if strip current_line \<noteq> [] then column_lines @ [strip current_line] else column_lines)"

definition ref_col_at :: "string list \<Rightarrow> nat \<Rightarrow> py_error + string" where
  \<comment> \<open>\<^verbatim>\<open>ref_cols[i] if i < len(ref_cols) else ref_cols[-1]\<close>\<close>
  "ref_col_at ref_cols i =
     (if i < length ref_cols then Inr (ref_cols ! i)
      else if ref_cols = [] then Inl IndexError
      else Inr (last ref_cols))"

primrec fk_pairs :: "nat \<Rightarrow> string list \<Rightarrow> string \<Rightarrow> string list \<Rightarrow> py_error + foreign_key list" where
  \<comment> \<open>\<^verbatim>\<open>for i, fk_col in enumerate(fk_cols)\<close>, from index \<open>i\<close>\<close>
  "fk_pairs i [] ref_table ref_cols = Inr []"
| "fk_pairs i (fk_col # rest) ref_table ref_cols =
     (case ref_col_at ref_cols i of
        Inl e \<Rightarrow> Inl e
      | Inr ref_col \<Rightarrow>
          (case fk_pairs (Suc i) rest ref_table ref_cols of
             Inl e \<Rightarrow> Inl e
           | Inr fks \<Rightarrow>
               Inr (\<lparr>fk_column = fk_col, fk_ref_table = ref_table, fk_ref_column = ref_col\<rparr> # fks)))"

definition resolve_ref_table :: "(string \<rightharpoonup> string) \<Rightarrow> string \<Rightarrow> string" where
  "resolve_ref_table db_names ref_table =
     (if startswith ref_table ''${'' \<and> endswith ref_table ''}'' then
        (let var_name = drop 2 (butlast ref_table) in
         case db_names var_name of
           Some v \<Rightarrow> v
         | None \<Rightarrow> var_name @ '' (variable)'')
      else ref_table)"

definition foreign_keys_of_match :: "(string \<rightharpoonup> string) \<Rightarrow> string \<Rightarrow> string \<Rightarrow> string \<Rightarrow> py_error + foreign_key list" where
  \<comment> \<open>the records of one FOREIGN KEY constraint, from the three groups of \<open>fk_pattern\<close>\<close>
  "foreign_keys_of_match db_names g1 g2 g3 =
     fk_pairs 0 (map strip_quotes (split_on CHR '','' g1))
       (resolve_ref_table db_names (strip_quotes g2))
       (map strip_quotes (split_on CHR '','' g3))"

definition constraint_line :: "(string \<rightharpoonup> string) \<Rightarrow> string \<Rightarrow> py_error + string list \<times> foreign_key list" where
  \<comment> \<open>a constraint: the primary keys and the foreign keys it adds\<close>
  "constraint_line db_names line =
     (let pks = (if matches primary_key_word line then
                   (case search pk_pattern line of
                      None \<Rightarrow> []
                    | Some m \<Rightarrow> map strip_quotes (split_on CHR '','' (grp_str m 1)))
                 else [])
      in if matches foreign_key_word line then
           (case search fk_pattern line of
              None \<Rightarrow> Inr (pks, [])
            | Some m \<Rightarrow>
                (case foreign_keys_of_match db_names (grp_str m 1) (grp_str m 2) (grp_str m 3) of
                   Inl e \<Rightarrow> Inl e
                 | Inr fks \<Rightarrow> Inr (pks, fks)))
         else Inr (pks, []))"

definition column_line :: "string \<Rightarrow> (column \<times> string list) option" where
  \<comment> \<open>a column definition: the column and the primary keys it adds; a line of fewer than
      two words adds nothing\<close>
  "column_line line =
     (let parts = split_ws line in
      if 2 \<le> length parts then
        (let name = strip_quotes (parts ! 0);
             type = (case split_on CHR ''('' (parts ! 1) of [] \<Rightarrow> [] | t # _ \<Rightarrow> t);
             dflt = (if contains (upper line) ''DEFAULT'' then
                       (case search default_pattern line of
                          None \<Rightarrow> None
                        | Some m \<Rightarrow> grp m 1)
                     else None)
         in Some (\<lparr>col_name = name, col_type = type,
                    col_nullable = (\<not> contains (upper line) ''NOT NULL''), col_default = dflt\<rparr>,
                  if contains (upper line) ''PRIMARY KEY'' then [name] else []))
      else None)"

definition is_constraint :: "string \<Rightarrow> bool" where
  "is_constraint line = (case match_start constraint_head line of None \<Rightarrow> False | Some _ \<Rightarrow> True)"

primrec process_lines :: "(string \<rightharpoonup> string) \<Rightarrow> string list \<Rightarrow> column list \<Rightarrow> string list \<Rightarrow> foreign_key list
    \<Rightarrow> py_error + column list \<times> string list \<times> foreign_key list" where
  "process_lines db_names [] cols pks fks = Inr (cols, pks, fks)"
| "process_lines db_names (line # rest) cols pks fks =
     (if is_constraint line then
        (case constraint_line db_names line of
           Inl e \<Rightarrow> Inl e
         | Inr (p, f) \<Rightarrow> process_lines db_names rest cols (pks @ p) (fks @ f))
      else
        (case column_line line of
           None \<Rightarrow> process_lines db_names rest cols pks fks
         | Some (c, p) \<Rightarrow> process_lines db_names rest (cols @ [c]) (pks @ p) fks))"

definition index_of_match :: "(string \<rightharpoonup> string) \<Rightarrow> string \<Rightarrow> rmatched \<Rightarrow> db_index list" where
  \<comment> \<open>the index of one CREATE INDEX statement, when it is on the table\<close>
  "index_of_match db_names tname m =
     (let idx_table0 = (if truthy (grp m 2) then grp_str m 2 else grp_str m 3);
          idx_table = (if \<not> truthy (grp m 2) then
                         (case db_names idx_table0 of Some v \<Rightarrow> v | None \<Rightarrow> idx_table0)
                       else idx_table0)
      in if idx_table = tname
            \<or> (endswith tname '' (variable)'' \<and> idx_table = take (length tname - 11) tname)
         then [\<lparr>idx_name = grp_str m 1,
                 idx_columns = map strip_quotes (split_on CHR '','' (grp_str m 4)),
                 idx_unique = contains (upper (m_text m)) ''UNIQUE''\<rparr>]
         else [])"

definition schema_of_match :: "(string \<rightharpoonup> string) \<Rightarrow> string \<Rightarrow> string \<Rightarrow> rmatched \<Rightarrow> py_error + schema" where
  \<comment> \<open>the body of the loop over the CREATE TABLE statements\<close>
  "schema_of_match db_names content file_path m =
     (let tname = resolve_table_name db_names m;
          columns_def = strip (grp_str m 3)
      in case process_lines db_names (column_lines_of columns_def) [] [] [] of
           Inl e \<Rightarrow> Inl e
         | Inr (cols, pks, fks) \<Rightarrow>
             Inr \<lparr>table_name = tname, columns = cols, primary_keys = pks, foreign_keys = fks,
                  indices = concat (map (index_of_match db_names tname)
                                        (finditer index_pattern content)),
                  description = None, schema_file_path = file_path\<rparr>)"

primrec schemas_of_matches :: "(string \<rightharpoonup> string) \<Rightarrow> string \<Rightarrow> string \<Rightarrow> rmatched list \<Rightarrow> py_error + schema list" where
  "schemas_of_matches db_names content file_path [] = Inr []"
| "schemas_of_matches db_names content file_path (m # ms) =
     (case schema_of_match db_names content file_path m of
        Inl e \<Rightarrow> Inl e
      | Inr sc \<Rightarrow>
          (case schemas_of_matches db_names content file_path ms of
             Inl e \<Rightarrow> Inl e
           | Inr scs \<Rightarrow> Inr (sc # scs)))"

definition extract_database_schema :: "string \<Rightarrow> string \<Rightarrow> py_error + schema list" where
  \<comment> \<open>the list under the key \<^verbatim>\<open>'schemas'\<close> of the result\<close>
  "extract_database_schema content file_path =
     schemas_of_matches (collect_db_names content) content file_path
       (finditer table_pattern content)"

section \<open>The project index\<close>

text \<open>
  The fields of \<^verbatim>\<open>CodeContextExtractor\<close> that the recognizers write, and the three
  analysis switches of its configuration that they read.
\<close>

record param =
  param_name :: string
  param_type :: string

type_synonym flow = "(string \<times> string list) list"


record complexity_entry =
  ce_name :: string
  ce_file_path :: string
  ce_complexity :: nat

record issue_entry =
  ie_component :: string
  ie_file_path :: string
  ie_issues :: "string list"

record hook =
  hook_name :: string
  hook_file_path :: string
  hook_params :: "param list"
  hook_returns :: "string list"
  hook_uses_hooks :: "string list"
  hook_api_calls :: "string list"

record svc_method =
  method_name :: string
  method_params :: "param list"
  method_return_type :: "string option"

record service =
  svc_name :: string
  svc_file_path :: string
  svc_parent_class :: "string option"
  svc_is_singleton :: bool
  svc_methods :: "svc_method list"
  svc_api_endpoints :: "string list"

record endpoint =
  ep_endpoint :: string
  ep_service :: string
  ep_file_path :: string

record interface_info =
  if_file_path :: string
  if_parent :: "string option"
  if_properties :: "param list"

record enhanced_endpoint =
  ee_endpoint :: string
  ee_method :: string
  ee_request_data :: "string option"
  ee_function :: "string option"
  ee_return_type :: "string option"
  ee_file_path :: string

record extractor =
  analyze_performance :: bool
  analyze_react_native :: bool
  analyze_data_flow :: bool
  component_props :: "string \<rightharpoonup> param list"
  hooks :: "hook list"
  services :: "service list"
  api_endpoints :: "endpoint list"
  interfaces :: "string \<rightharpoonup> interface_info"
  hook_usages :: "string \<Rightarrow> string set"
  api_calls :: "string \<Rightarrow> string set"
  component_complexity :: "complexity_entry list"
  performance_issues :: "issue_entry list"
  react_native_issues :: "issue_entry list"
  state_flows :: "string \<rightharpoonup> flow"
  database_schemas :: "schema list"
  enhanced_api_endpoints :: "enhanced_endpoint list"

definition new_extractor :: "bool \<Rightarrow> bool \<Rightarrow> bool \<Rightarrow> extractor" where
  \<comment> \<open>\<^verbatim>\<open>__init__\<close>\<close>
  "new_extractor perf rn flow =
     \<lparr>analyze_performance = perf, analyze_react_native = rn, analyze_data_flow = flow,
      component_props = Map.empty, hooks = [], services = [], api_endpoints = [],
      interfaces = Map.empty, hook_usages = (\<lambda>_. {}), api_calls = (\<lambda>_. {}),
      component_complexity = [], performance_issues = [], react_native_issues = [],
      state_flows = Map.empty, database_schemas = [], enhanced_api_endpoints = []\<rparr>"

section \<open>The component recognizer\<close>














subsection \<open>The optional analyses\<close>











primrec dict_append :: "('k \<times> 'v list) list \<Rightarrow> 'k \<Rightarrow> 'v \<Rightarrow> ('k \<times> 'v list) list" where
  \<comment> \<open>a dictionary of lists in insertion order: append a value to the list of a key,
      creating the list if needed\<close>
  "dict_append [] k v = [(k, [v])]"
| "dict_append (kv # rest) k v =
     (if fst kv = k then (fst kv, snd kv @ [v]) # rest else kv # dict_append rest k v)"








subsection \<open>Functional and class components\<close>












section \<open>The service recognizer\<close>

definition basename :: "string \<Rightarrow> string" where
  \<comment> \<open>\<^verbatim>\<open>os.path.basename\<close>: what follows the last slash\<close>
  "basename path = rev (takeWhile (\<lambda>c. c \<noteq> CHR ''/'') (rev path))"












section \<open>The type recognizer\<close>






















section \<open>Sections of the text report\<close>




definition group_by_method :: "enhanced_endpoint list \<Rightarrow> (string \<times> enhanced_endpoint list) list" where
  \<comment> \<open>the dictionary \<^verbatim>\<open>by_method\<close>\<close>
  "group_by_method eps = fold (\<lambda>e d. dict_append d (ee_method e) e) eps []"






definition column_row :: "schema \<Rightarrow> column \<Rightarrow> string" where
  "column_row sc c =
     ''    - '' @ col_name c @ '': '' @ col_type c @ '' ''
     @ (if col_nullable c then ''NULL'' else ''NOT NULL'')
     @ (case col_default c of None \<Rightarrow> [] | Some d \<Rightarrow> '' DEFAULT '' @ d)
     @ (if col_name c \<in> set (primary_keys sc) then '' PRIMARY KEY'' else [])"

definition join_comma :: "string list \<Rightarrow> string" where
  \<comment> \<open>\<^verbatim>\<open>', '.join(...)\<close>\<close>
  "join_comma ws = concat (case ws of [] \<Rightarrow> [] | w # rest \<Rightarrow> w # map (\<lambda>x. '', '' @ x) rest)"

definition index_row :: "db_index \<Rightarrow> string" where
  "index_row i =
     ''    - '' @ (if idx_unique i then ''UNIQUE '' else []) @ ''INDEX '' @ idx_name i @ '' (''
     @ join_comma (idx_columns i) @ '')''"

definition schema_lines :: "schema \<Rightarrow> string list" where
  "schema_lines sc =
     [''Table: '' @ table_name sc @ '' (from '' @ basename (schema_file_path sc) @ '')'',
      ''  Columns:'']
     @ map (column_row sc) (columns sc)
     @ (if primary_keys sc \<noteq> [] then
          ''  Primary Keys:'' # map (\<lambda>pk. ''    - '' @ pk) (primary_keys sc)
        else [])
     @ (if foreign_keys sc \<noteq> [] then
          ''  Foreign Keys:''
          # map (\<lambda>fk. ''    - '' @ fk_column fk @ ''  '' @ fk_ref_table fk @ ''.''
                         @ fk_ref_column fk)
                (foreign_keys sc)
        else [])
     @ (if indices sc \<noteq> [] then ''  Indices:'' # map index_row (indices sc) else [])
     @ [[]]"

definition database_schemas_section :: "schema list \<Rightarrow> string list" where
  "database_schemas_section scs =
     (if scs = [] then [] else ''=== DATABASE SCHEMAS ==='' # concat (map schema_lines scs))"

record file_summary =
  fs_path :: string
  fs_lines :: "string list"

definition file_summary_lines :: "file_summary \<Rightarrow> string list" where
  "file_summary_lines fi =
     [''=== '' @ fs_path fi @ '' ===''] @ fs_lines fi @ [[], replicate 80 CHR ''-'', []]"

definition file_summaries_section :: "file_summary list \<Rightarrow> string list" where
  "file_summaries_section fss =
     (if fss = [] then [] else ''=== FILE SUMMARIES ==='' # concat (map file_summary_lines fss))"

section \<open>The run\<close>

text \<open>
  A file, as the run sees it: its two paths, its text when it can be read, and what the parts
  of the program outside this development do with it. These are the pass that
  \<^verbatim>\<open>process_file\<close> chooses by the extension (it raises, or it returns after the
  recognizers have written to the index), the analyses that follow the schema recognizer, and
  the result of \<^verbatim>\<open>format_file_summary\<close>.
\<close>

record source_file =
  sf_path :: string
  sf_rel_path :: string
  sf_content :: "string option"
  sf_typed_pass :: "py_error + (extractor \<Rightarrow> extractor)"
  sf_enhanced :: "extractor \<Rightarrow> extractor"
  sf_summary :: "py_error + string list"

definition schema_pass :: "source_file \<Rightarrow> extractor \<Rightarrow> extractor" where
  \<comment> \<open>the second \<^verbatim>\<open>try\<close> block of \<^verbatim>\<open>process_file\<close>: an exception ends it and is
      printed\<close>
  "schema_pass f st =
     (case sf_content f of
        None \<Rightarrow> st
      | Some content \<Rightarrow>
          (case extract_database_schema content (sf_path f) of
             Inl e \<Rightarrow> st
           | Inr schemas \<Rightarrow>
               sf_enhanced f
                 (if schemas \<noteq> [] then
                    st\<lparr>database_schemas := database_schemas st @ schemas\<rparr>
                  else st)))"

definition process_file :: "source_file \<Rightarrow> extractor \<Rightarrow> (py_error + unit) \<times> extractor" where
  "process_file f st =
     (case sf_typed_pass f of
        Inl e \<Rightarrow> (Inl e, st)
      | Inr recognize \<Rightarrow> (Inr (), schema_pass f (recognize st)))"

text \<open>
  The state of the loop of \<^verbatim>\<open>extract_context\<close>: the index, the two fields of the
  extractor that only this loop writes, and the three counters.
\<close>

record run_state =
  rs_index :: extractor
  file_summaries :: "file_summary list"
  total_lines :: int
  processed_count :: nat
  excluded_count :: nat
  error_count :: nat

definition summary_cost :: "string list \<Rightarrow> int" where
  \<comment> \<open>the lines of a summary, and three for the separator and the file name\<close>
  "summary_cost summary_lines = int (length summary_lines) + 3"

primrec file_loop :: "int \<Rightarrow> source_file list \<Rightarrow> run_state \<Rightarrow> run_state" where
  "file_loop max_lines [] rs = rs"
| "file_loop max_lines (f # fs) rs =
     (if max_lines \<le> total_lines rs then rs
      else
        (case process_file f (rs_index rs) of
           (Inl e, st) \<Rightarrow>
             file_loop max_lines fs (rs\<lparr>rs_index := st, error_count := error_count rs + 1\<rparr>)
         | (Inr u, st) \<Rightarrow>
             (let rs1 = rs\<lparr>rs_index := st, processed_count := processed_count rs + 1\<rparr> in
              case sf_summary f of
                Inl e \<Rightarrow> file_loop max_lines fs (rs1\<lparr>error_count := error_count rs1 + 1\<rparr>)
              | Inr summary_lines \<Rightarrow>
                  if summary_lines = [] then
                    file_loop max_lines fs (rs1\<lparr>excluded_count := excluded_count rs1 + 1\<rparr>)
                  else if max_lines < total_lines rs1 + summary_cost summary_lines then rs1
                  else
                    file_loop max_lines fs
                      (rs1\<lparr>file_summaries := file_summaries rs1
                              @ [\<lparr>fs_path = sf_rel_path f, fs_lines = summary_lines\<rparr>],
                           total_lines := total_lines rs1 + summary_cost summary_lines\<rparr>))))"

definition start_run :: "extractor \<Rightarrow> run_state" where
  "start_run st =
     \<lparr>rs_index = st, file_summaries = [], total_lines = 0, processed_count = 0,
      excluded_count = 0, error_count = 0\<rparr>"

text \<open>
  The three renderers that the class defines are parameters of the run. The class defines no
  \<^verbatim>\<open>generate_html_output\<close>: looking it up raises \<^verbatim>\<open>AttributeError\<close>.
\<close>

record renderers =
  generate_text_output :: "run_state \<Rightarrow> py_error + string"
  generate_json_output :: "run_state \<Rightarrow> py_error + string"
  generate_markdown_output :: "run_state \<Rightarrow> py_error + string"

definition generate_output :: "renderers \<Rightarrow> string \<Rightarrow> run_state \<Rightarrow> py_error + string" where
  "generate_output r format rs =
     (if format = ''text'' then generate_text_output r rs
      else if format = ''json'' then generate_json_output r rs
      else if format = ''markdown'' then generate_markdown_output r rs
      else if format = ''html'' then Inl (AttributeError ''generate_html_output'')
      else Inl (ValueError (''Unsupported output format: '' @ format)))"

record run_result =
  rr_state :: run_state
  rr_written :: "string option"

definition extract_context :: "renderers \<Rightarrow> bool \<Rightarrow> int \<Rightarrow> extractor \<Rightarrow> py_error + source_file list \<Rightarrow> string \<Rightarrow> run_result" where
  \<comment> \<open>the renderers, whether the output file can be written, the line budget, the new
      extractor, what \<^verbatim>\<open>collect_files\<close> returns or raises, and the format\<close>
  "extract_context r writable max_lines st collected format =
     (case collected of
        Inl e \<Rightarrow> \<lparr>rr_state = start_run st, rr_written = None\<rparr>
      | Inr files \<Rightarrow>
          (let rs = file_loop max_lines (sort_key sf_rel_path files) (start_run st) in
           \<lparr>rr_state = rs,
            rr_written = (case generate_output r format rs of
                            Inl e \<Rightarrow> None
                          | Inr output_content \<Rightarrow>
                              if writable then Some output_content else None)\<rparr>))"

record args =
  arg_format :: string
  arg_max_lines :: int
  arg_analyze_performance :: bool
  arg_analyze_data_flow :: bool
  arg_analyze_react_native :: bool

definition format_choices :: "string list" where
  "format_choices = [''text'', ''json'', ''markdown'', ''html'']"

definition main :: "renderers \<Rightarrow> bool \<Rightarrow> py_error + source_file list \<Rightarrow> args \<Rightarrow> nat \<times> run_result option" where
  \<comment> \<open>the exit status and the run, if there is one: the argument parser rejects a format
      outside its choices with status 2; the budget is any integer\<close>
  "main r writable collected a =
     (if arg_format a \<notin> set format_choices then (2, None)
      else (0, Some (extract_context r writable (arg_max_lines a)
                       (new_extractor (arg_analyze_performance a) (arg_analyze_react_native a)
                          (arg_analyze_data_flow a))
                       collected (arg_format a))))"

section \<open>What the run keeps of its files\<close>

text \<open>
  The words of the specification about the line budget, as definitions: the files that have a
  summary to offer, the cumulative cost of the first ones, and the number of them that fit.
\<close>

definition candidate :: "source_file \<Rightarrow> file_summary list" where
  \<comment> \<open>the summary of a file that is processed without error and has something to report\<close>
  "candidate f =
     (case sf_typed_pass f of
        Inl e \<Rightarrow> []
      | Inr recognize \<Rightarrow>
          (case sf_summary f of
             Inl e \<Rightarrow> []
           | Inr summary_lines \<Rightarrow>
               if summary_lines = [] then []
               else [\<lparr>fs_path = sf_rel_path f, fs_lines = summary_lines\<rparr>]))"


definition entry_cost :: "file_summary \<Rightarrow> int" where
  "entry_cost c = summary_cost (fs_lines c)"



definition file_cost :: "source_file \<Rightarrow> int" where
  "file_cost f = sum_list (map entry_cost (candidate f))"

definition summary_fails :: "source_file \<Rightarrow> bool" where
  \<comment> \<open>the file is processed, and formatting its summary raises\<close>
  "summary_fails f = (\<not> isl (sf_typed_pass f) \<and> isl (sf_summary f))"

section \<open>Concrete inputs\<close>

definition fixed_renderers :: renderers where
  "fixed_renderers =
     \<lparr>generate_text_output = (\<lambda>rs. Inr ''report''),
      generate_json_output = (\<lambda>rs. Inr ''{}''),
      generate_markdown_output = (\<lambda>rs. Inr ''# report'')\<rparr>"

definition plain_file :: "string \<Rightarrow> string option \<Rightarrow> string list \<Rightarrow> source_file" where
  \<comment> \<open>a file under the root \<^verbatim>\<open>.\<close> whose typed pass and later analyses leave the index
      as it is\<close>
  "plain_file path content summary_lines =
     \<lparr>sf_path = ''./'' @ path, sf_rel_path = path, sf_content = content, sf_typed_pass = Inr id,
      sf_enhanced = id, sf_summary = Inr summary_lines\<rparr>"

text \<open>
  Four files as the program sees them. A TypeScript text with one default import and nothing
  else that a recognizer matches has the three summary lines of its import; an empty text has
  no summary line. A table declared in a text is recognized whatever else the text holds. A
  JSON text that is a list is loaded by \<^verbatim>\<open>process_file\<close>, and \<^verbatim>\<open>format_file_summary\<close>
  then asks it for its keys, which raises \<^verbatim>\<open>AttributeError\<close>.
\<close>

definition import_summary :: "string \<Rightarrow> string \<Rightarrow> string list" where
  "import_summary name module =
     [''# Imports:'', ''# import { '' @ name @ '' } from '' @ quoted module, []]"

definition import_file :: source_file where
  "import_file = plain_file ''src/a.ts'' (Some ''import p from 'q';'') (import_summary ''p'' ''q'')"

definition table_file :: source_file where
  "table_file =
     plain_file ''src/b.ts'' (Some ''import x from 'y';CREATE TABLE T (a INT)'')
       (import_summary ''x'' ''y'')"

definition empty_file :: source_file where
  "empty_file = plain_file ''src/c.ts'' (Some []) []"

definition list_file :: source_file where
  "list_file =
     \<lparr>sf_path = ''./src/d.json'', sf_rel_path = ''src/d.json'', sf_content = Some ''[1, 2]'',
      sf_typed_pass = Inr id, sf_enhanced = id, sf_summary = Inl (AttributeError ''keys'')\<rparr>"

definition default_args :: "string \<Rightarrow> int \<Rightarrow> args" where
  "default_args format max_lines =
     \<lparr>arg_format = format, arg_max_lines = max_lines, arg_analyze_performance = False,
      arg_analyze_data_flow = False, arg_analyze_react_native = False\<rparr>"

definition users_statement :: string where
  "users_statement =
     ''CREATE TABLE IF NOT EXISTS Users (id TEXT PRIMARY KEY, orgId TEXT NOT NULL, FOREIGN KEY (orgId) REFERENCES Orgs(id))''"













section \<open>Rules for evaluating the matcher\<close>

text \<open>
  The equations of the matcher, restricted to a state that is given in full: a pattern is
  unfolded only where the text it reads is known.
\<close>

declare rmatch.simps [simp del] star_greedy.simps [simp del] star_lazy.simps [simp del]
  scan.simps [simp del] show_nat.simps [simp del]

lemma rmatch_ev:
  "rmatch Eps \<lparr>ms_pos = p, ms_prev = q, ms_rest = r, ms_groups = g\<rparr> k = k \<lparr>ms_pos = p, ms_prev = q, ms_rest = r, ms_groups = g\<rparr>"
  "rmatch (Cls P) \<lparr>ms_pos = p, ms_prev = q, ms_rest = [], ms_groups = g\<rparr> k = None"
  "rmatch (Cls P) \<lparr>ms_pos = p, ms_prev = q, ms_rest = c # cs, ms_groups = g\<rparr> k =
     (if P c then k \<lparr>ms_pos = Suc p, ms_prev = Some c, ms_rest = cs, ms_groups = g\<rparr> else None)"
  "rmatch (Seq a b) \<lparr>ms_pos = p, ms_prev = q, ms_rest = r, ms_groups = g\<rparr> k =
     rmatch a \<lparr>ms_pos = p, ms_prev = q, ms_rest = r, ms_groups = g\<rparr> (\<lambda>s'. rmatch b s' k)"
  "rmatch (Alt a b) \<lparr>ms_pos = p, ms_prev = q, ms_rest = r, ms_groups = g\<rparr> k =
     (case rmatch a \<lparr>ms_pos = p, ms_prev = q, ms_rest = r, ms_groups = g\<rparr> k of
        Some x \<Rightarrow> Some x
      | None \<Rightarrow> rmatch b \<lparr>ms_pos = p, ms_prev = q, ms_rest = r, ms_groups = g\<rparr> k)"
  "rmatch (Star a) \<lparr>ms_pos = p, ms_prev = q, ms_rest = r, ms_groups = g\<rparr> k =
     star_greedy (rmatch a) (length r) \<lparr>ms_pos = p, ms_prev = q, ms_rest = r, ms_groups = g\<rparr> k"
  "rmatch (Lazy a) \<lparr>ms_pos = p, ms_prev = q, ms_rest = r, ms_groups = g\<rparr> k =
     star_lazy (rmatch a) (length r) \<lparr>ms_pos = p, ms_prev = q, ms_rest = r, ms_groups = g\<rparr> k"
  "rmatch (Grp i a) \<lparr>ms_pos = p, ms_prev = q, ms_rest = r, ms_groups = g\<rparr> k =
     rmatch a \<lparr>ms_pos = p, ms_prev = q, ms_rest = r, ms_groups = g\<rparr>
       (\<lambda>s'. k (s'\<lparr>ms_groups := (ms_groups s')(i \<mapsto> take (ms_pos s' - p) r)\<rparr>))"
  "rmatch WordB \<lparr>ms_pos = p, ms_prev = q, ms_rest = r, ms_groups = g\<rparr> k =
     (if at_word_boundary \<lparr>ms_pos = p, ms_prev = q, ms_rest = r, ms_groups = g\<rparr>
      then k \<lparr>ms_pos = p, ms_prev = q, ms_rest = r, ms_groups = g\<rparr> else None)"
  "rmatch Bol \<lparr>ms_pos = p, ms_prev = q, ms_rest = r, ms_groups = g\<rparr> k =
     (if p = 0 then k \<lparr>ms_pos = p, ms_prev = q, ms_rest = r, ms_groups = g\<rparr> else None)"
  by (simp_all add: rmatch.simps)

lemma star_ev:
  "star_greedy f 0 \<lparr>ms_pos = p, ms_prev = q, ms_rest = r, ms_groups = g\<rparr> k = k \<lparr>ms_pos = p, ms_prev = q, ms_rest = r, ms_groups = g\<rparr>"
  "star_greedy f (Suc n) \<lparr>ms_pos = p, ms_prev = q, ms_rest = r, ms_groups = g\<rparr> k =
     (case f \<lparr>ms_pos = p, ms_prev = q, ms_rest = r, ms_groups = g\<rparr>
             (\<lambda>s'. if p < ms_pos s' then star_greedy f n s' k else None) of
        Some x \<Rightarrow> Some x
      | None \<Rightarrow> k \<lparr>ms_pos = p, ms_prev = q, ms_rest = r, ms_groups = g\<rparr>)"
  "star_lazy f 0 \<lparr>ms_pos = p, ms_prev = q, ms_rest = r, ms_groups = g\<rparr> k = k \<lparr>ms_pos = p, ms_prev = q, ms_rest = r, ms_groups = g\<rparr>"
  "star_lazy f (Suc n) \<lparr>ms_pos = p, ms_prev = q, ms_rest = r, ms_groups = g\<rparr> k =
     (case k \<lparr>ms_pos = p, ms_prev = q, ms_rest = r, ms_groups = g\<rparr> of
        Some x \<Rightarrow> Some x
      | None \<Rightarrow> f \<lparr>ms_pos = p, ms_prev = q, ms_rest = r, ms_groups = g\<rparr>
             (\<lambda>s'. if p < ms_pos s' then star_lazy f n s' k else None))"
  by (simp_all add: star_greedy.simps star_lazy.simps split: option.splits)

lemma scan_ev:
  "scan r (Suc n) prev pos [] = []"
  "scan r 0 prev pos [] = (case match_here r prev pos [] of None \<Rightarrow> [] | Some m \<Rightarrow> [m])"
  "scan r (Suc n) prev pos (c # cs) = scan r n (Some c) (Suc pos) cs"
  "scan r 0 prev pos (c # cs) =
     (case match_here r prev pos (c # cs) of
        None \<Rightarrow> scan r 0 (Some c) (Suc pos) cs
      | Some m \<Rightarrow> m # scan r (m_end m - pos - 1) (Some c) (Suc pos) cs)"
  by (simp_all add: scan.simps)

lemmas rx_ev = rmatch_ev star_ev scan_ev seqs_def alts_def ch_def not_in_def one_of_def lit_def
  liti_def plus_def opt_def sp0_def sp1_def word1_def finditer_def match_here_def search_def
  match_start_def matches_def grp_def grp_str_def truthy_def at_word_boundary_def Let_def

lemmas chr_ev = is_space_def is_upper_az_def is_lower_az_def is_digit_def is_ident_char_def
  is_word_def upper_char_def lower_char_def is_quote_def name_char_def is_char_def excluded_def
  included_def same_letter_def upper_letters_def lower_letters_def default_value_char_def
  quote_chars_def

lemmas str_ev = upper_def lower_def startswith_def endswith_def count_sub_def lstrip_chars_def
  rstrip_chars_def strip_chars_def strip_def strip_quotes_def split_ws_def basename_def

lemmas schema_ev = db_name_pattern_def if_not_exists_def table_pattern_def constraint_head_def
  primary_key_word_def pk_pattern_def foreign_key_word_def fk_pattern_def default_pattern_def
  index_pattern_def collect_db_names_def resolve_table_name_def column_lines_of_def
  ref_col_at_def resolve_ref_table_def foreign_keys_of_match_def constraint_line_def
  column_line_def is_constraint_def index_of_match_def schema_of_match_def
  extract_database_schema_def

lemmas run_ev = extract_context_def start_run_def process_file_def schema_pass_def
  summary_cost_def generate_output_def new_extractor_def main_def format_choices_def
  plain_file_def fixed_renderers_def default_args_def import_summary_def import_file_def
  table_file_def empty_file_def list_file_def quoted_def

section \<open>The foreign keys of a constraint\<close>






section \<open>The counters and the budget of a run\<close>



lemma candidate_cases:
  "candidate f = [] \<or> (\<exists>ls. ls \<noteq> [] \<and> sf_summary f = Inr ls \<and> \<not> isl (sf_typed_pass f)
      \<and> candidate f = [\<lparr>fs_path = sf_rel_path f, fs_lines = ls\<rparr>])"
  by (auto simp: candidate_def split: sum.splits)



lemma file_loop_counts:
  "excluded_count (file_loop max_lines fs rs) + processed_count rs
     \<le> processed_count (file_loop max_lines fs rs) + excluded_count rs
   \<and> processed_count rs \<le> processed_count (file_loop max_lines fs rs)
   \<and> excluded_count rs \<le> excluded_count (file_loop max_lines fs rs)
   \<and> processed_count (file_loop max_lines fs rs) \<le> processed_count rs + length fs
   \<and> error_count (file_loop max_lines fs rs) \<le> error_count rs + length fs"
proof (induction fs arbitrary: rs)
  case Nil
  then show ?case by simp
next
  case (Cons f fs)
  show ?case
  proof (cases "max_lines \<le> total_lines rs")
    case True
    then show ?thesis by simp
  next
    case False
    obtain res st where pf: "process_file f (rs_index rs) = (res, st)"
      by (cases "process_file f (rs_index rs)")
    show ?thesis
    proof (cases res)
      case (Inl e)
      then show ?thesis
        using False pf Cons.IH [of "rs\<lparr>rs_index := st, error_count := error_count rs + 1\<rparr>"]
        by simp
    next
      case (Inr u)
      let ?rs1 = "rs\<lparr>rs_index := st, processed_count := processed_count rs + 1\<rparr>"
      show ?thesis
      proof (cases "sf_summary f")
        case (Inl e)
        then show ?thesis
          using False pf Inr Cons.IH [of "?rs1\<lparr>error_count := error_count ?rs1 + 1\<rparr>"]
          by (simp add: Let_def)
      next
        case ls: (Inr summary_lines)
        show ?thesis
        proof (cases "summary_lines = []")
          case True
          then show ?thesis
            using False pf Inr ls Cons.IH [of "?rs1\<lparr>excluded_count := excluded_count ?rs1 + 1\<rparr>"]
            by (simp add: Let_def)
        next
          case ne: False
          show ?thesis
          proof (cases "max_lines < total_lines ?rs1 + summary_cost summary_lines")
            case True
            then show ?thesis using False pf Inr ls ne by (simp add: Let_def)
          next
            case fits: False
            then show ?thesis
              using False pf Inr ls ne
                Cons.IH [of "?rs1\<lparr>file_summaries := file_summaries ?rs1
                                @ [\<lparr>fs_path = sf_rel_path f, fs_lines = summary_lines\<rparr>],
                             total_lines := total_lines ?rs1 + summary_cost summary_lines\<rparr>"]
              by (simp add: Let_def)
          qed
        qed
      qed
    qed
  qed
qed

lemma file_loop_all_visited:
  "total_lines rs + sum_list (map file_cost fs) < max_lines \<Longrightarrow>
   processed_count (file_loop max_lines fs rs) + error_count (file_loop max_lines fs rs)
     = processed_count rs + error_count rs + length fs + length (filter summary_fails fs)"
proof (induction fs arbitrary: rs)
  case Nil
  then show ?case by simp
next
  case (Cons f fs)
  have nonneg: "0 \<le> sum_list (map file_cost fs)"
    by (rule sum_list_nonneg) (auto simp: file_cost_def candidate_def entry_cost_def summary_cost_def split: sum.splits)
  have fc: "0 \<le> file_cost f"
    by (auto simp: file_cost_def candidate_def entry_cost_def summary_cost_def split: sum.splits)
  have nostop: "\<not> max_lines \<le> total_lines rs"
    using Cons.prems nonneg fc by simp
  obtain res st where pf: "process_file f (rs_index rs) = (res, st)"
    by (cases "process_file f (rs_index rs)")
  have res: "isl res = isl (sf_typed_pass f)"
    using pf by (auto simp: process_file_def split: sum.splits)
  show ?case
  proof (cases res)
    case (Inl e)
    then have "\<not> summary_fails f" using res by (auto simp: summary_fails_def split: sum.splits)
    moreover have "file_cost f = 0" using res Inl by (auto simp: file_cost_def candidate_def split: sum.splits)
    ultimately show ?thesis
      using nostop pf Inl Cons.prems
        Cons.IH [of "rs\<lparr>rs_index := st, error_count := error_count rs + 1\<rparr>"]
      by simp
  next
    case (Inr u)
    then have ok: "\<not> isl (sf_typed_pass f)" using res by (cases "sf_typed_pass f") auto
    let ?rs1 = "rs\<lparr>rs_index := st, processed_count := processed_count rs + 1\<rparr>"
    show ?thesis
    proof (cases "sf_summary f")
      case (Inl e)
      then have "summary_fails f" using ok by (simp add: summary_fails_def)
      moreover have "file_cost f = 0" using Inl by (auto simp: file_cost_def candidate_def split: sum.splits)
      ultimately show ?thesis
        using nostop pf Inr Inl Cons.prems
          Cons.IH [of "?rs1\<lparr>error_count := error_count ?rs1 + 1\<rparr>"]
        by (simp add: Let_def)
    next
      case ls: (Inr summary_lines)
      then have nf: "\<not> summary_fails f" by (simp add: summary_fails_def)
      show ?thesis
      proof (cases "summary_lines = []")
        case True
        then have "file_cost f = 0" using ls by (auto simp: file_cost_def candidate_def split: sum.splits)
        then show ?thesis
          using nostop pf Inr ls True nf Cons.prems
            Cons.IH [of "?rs1\<lparr>excluded_count := excluded_count ?rs1 + 1\<rparr>"]
          by (simp add: Let_def)
      next
        case ne: False
        have cost: "file_cost f = summary_cost summary_lines"
          using ls ne ok by (auto simp: file_cost_def candidate_def entry_cost_def split: sum.splits)
        have fits: "\<not> max_lines < total_lines ?rs1 + summary_cost summary_lines"
          using Cons.prems nonneg cost by simp
        show ?thesis
          using nostop pf Inr ls ne nf fits cost Cons.prems
            Cons.IH [of "?rs1\<lparr>file_summaries := file_summaries ?rs1
                            @ [\<lparr>fs_path = sf_rel_path f, fs_lines = summary_lines\<rparr>],
                         total_lines := total_lines ?rs1 + summary_cost summary_lines\<rparr>"]
          by (simp add: Let_def)
      qed
    qed
  qed
qed

lemma sum_list_insort_key:
  "sum_list (map g (insort_key k x xs)) = g x + sum_list (map g xs)"
  for g :: "'a \<Rightarrow> int"
  by (induction xs) auto

lemma sum_list_sort_key:
  "sum_list (map g (sort_key k xs)) = sum_list (map g xs)"
  for g :: "'a \<Rightarrow> int"
  by (induction xs) (auto simp: sum_list_insort_key sort_key_simps)

lemma length_filter_sort_key:
  "length (filter P (sort_key k xs)) = length (filter P xs)"
  by (simp add: filter_sort)


text \<open>
  Claim C1, as the program has it. A file with nothing to report is counted as processed and as
  excluded, so the three counters do not partition the files. What holds for every run:
  the excluded files are among the processed ones, and neither the processed nor the errored
  count exceeds the number of input files. When the budget cannot stop the loop (the costs of
  all summaries stay below it), the processed and the errored counts add up to the number of
  input files, plus one for each file that was processed and whose summary then failed.
\<close>

theorem counts_of_a_run:
  "excluded_count (rr_state (extract_context r writable max_lines st (Inr files) format))
     \<le> processed_count (rr_state (extract_context r writable max_lines st (Inr files) format))
   \<and> processed_count (rr_state (extract_context r writable max_lines st (Inr files) format))
     \<le> length files
   \<and> error_count (rr_state (extract_context r writable max_lines st (Inr files) format))
     \<le> length files
   \<and> (sum_list (map file_cost files) < max_lines \<longrightarrow>
        processed_count (rr_state (extract_context r writable max_lines st (Inr files) format))
        + error_count (rr_state (extract_context r writable max_lines st (Inr files) format))
        = length files + length (filter summary_fails files))"
proof -
  let ?fs = "sort_key sf_rel_path files"
  let ?rs = "file_loop max_lines ?fs (start_run st)"
  have rs: "rr_state (extract_context r writable max_lines st (Inr files) format) = ?rs"
    by (simp add: extract_context_def Let_def)
  have c: "excluded_count ?rs \<le> processed_count ?rs \<and> processed_count ?rs \<le> length files
           \<and> error_count ?rs \<le> length files"
    using file_loop_counts [of max_lines ?fs "start_run st"] by (simp add: start_run_def)
  have v: "sum_list (map file_cost files) < max_lines \<Longrightarrow>
           processed_count ?rs + error_count ?rs = length files + length (filter summary_fails files)"
  proof -
    assume "sum_list (map file_cost files) < max_lines"
    then have "total_lines (start_run st) + sum_list (map file_cost ?fs) < max_lines"
      by (simp add: start_run_def sum_list_sort_key)
    from file_loop_all_visited [OF this] show ?thesis
      by (simp add: start_run_def length_filter_sort_key)
  qed
  show ?thesis using rs c v by simp
qed

text \<open>
  Three files under a budget of 100 lines: one with an import, one with nothing to report, and
  one whose summary fails. All three are processed, one is excluded and one is an error.
\<close>

theorem counts_of_a_run_witness:
  "sum_list (map file_cost [import_file, empty_file, list_file]) < 100
   \<and> length (filter summary_fails [import_file, empty_file, list_file]) = 1
   \<and> processed_count (rr_state (extract_context fixed_renderers True 100
         (new_extractor False False False)
         (Inr [import_file, empty_file, list_file]) ''text'')) = 3
   \<and> excluded_count (rr_state (extract_context fixed_renderers True 100
         (new_extractor False False False)
         (Inr [import_file, empty_file, list_file]) ''text'')) = 1
   \<and> error_count (rr_state (extract_context fixed_renderers True 100
         (new_extractor False False False)
         (Inr [import_file, empty_file, list_file]) ''text'')) = 1"
  using counts_of_a_run [of fixed_renderers True 100 "new_extractor False False False"
      "[import_file, empty_file, list_file]" "''text''"]
  by (simp add: run_ev rx_ev chr_ev str_ev schema_ev file_cost_def candidate_def entry_cost_def
      summary_fails_def)

text \<open>
  Claim C1 as stated fails on a single file with an empty summary: it is counted twice.
\<close>

theorem counts_sum_counterexample:
  "processed_count (rr_state (extract_context fixed_renderers True 100
         (new_extractor False False False) (Inr [empty_file]) ''text''))
   + excluded_count (rr_state (extract_context fixed_renderers True 100
         (new_extractor False False False) (Inr [empty_file]) ''text''))
   + error_count (rr_state (extract_context fixed_renderers True 100
         (new_extractor False False False) (Inr [empty_file]) ''text''))
   \<noteq> length [empty_file]"
  by (simp add: run_ev rx_ev chr_ev str_ev schema_ev)







text \<open>
  Claim C8 at the selector \<^verbatim>\<open>html\<close>: the program names it among its four formats,
  and rendering it raises \<^verbatim>\<open>AttributeError\<close>, whatever the index holds; the run
  writes no report.
\<close>

theorem html_selector_raises:
  "generate_output r ''html'' rs = Inl (AttributeError ''generate_html_output'')
   \<and> rr_written (extract_context r writable max_lines st collected ''html'') = None"
  by (cases collected) (simp_all add: generate_output_def extract_context_def Let_def)

section \<open>The schema of the specification's statement\<close>

lemma users_schema_eval:
  "extract_database_schema users_statement file_path =
     Inr [\<lparr>table_name = ''Users'',
           columns =
             [\<lparr>col_name = ''id'', col_type = ''TEXT'', col_nullable = True, col_default = None\<rparr>,
              \<lparr>col_name = ''orgId'', col_type = ''TEXT'', col_nullable = False,
                 col_default = None\<rparr>],
           primary_keys = [''id''],
           foreign_keys =
             [\<lparr>fk_column = ''orgId'', fk_ref_table = ''Orgs'', fk_ref_column = ''id''\<rparr>],
           indices = [], description = None, schema_file_path = file_path\<rparr>]"
  by (simp add: users_statement_def rx_ev chr_ev str_ev schema_ev)

text \<open>
  Claim C3, as the program has it. For the statement of the specification the recognizer reports
  the columns \<open>id\<close> and \<open>orgId\<close>, both of type TEXT, the primary key \<open>id\<close> and the
  foreign key from \<open>orgId\<close> to \<open>Orgs.id\<close>. A column is not nullable exactly when its text
  has \<^verbatim>\<open>NOT NULL\<close>: \<open>orgId\<close> is not nullable, and \<open>id\<close>, which is only marked
  PRIMARY KEY, is reported nullable; the report prints it so.
\<close>

theorem users_statement_schema:
  "extract_database_schema users_statement file_path =
     Inr [\<lparr>table_name = ''Users'',
           columns =
             [\<lparr>col_name = ''id'', col_type = ''TEXT'', col_nullable = True, col_default = None\<rparr>,
              \<lparr>col_name = ''orgId'', col_type = ''TEXT'', col_nullable = False,
                 col_default = None\<rparr>],
           primary_keys = [''id''],
           foreign_keys =
             [\<lparr>fk_column = ''orgId'', fk_ref_table = ''Orgs'', fk_ref_column = ''id''\<rparr>],
           indices = [], description = None, schema_file_path = file_path\<rparr>]
   \<and> database_schemas_section (projr (extract_database_schema users_statement ''src/db.ts'')) =
       [''=== DATABASE SCHEMAS ==='',
        ''Table: Users (from db.ts)'',
        ''  Columns:'',
        ''    - id: TEXT NULL PRIMARY KEY'',
        ''    - orgId: TEXT NOT NULL'',
        ''  Primary Keys:'',
        ''    - id'',
        ''  Foreign Keys:'',
        ''    - orgId  Orgs.id'',
        []]"
  by (simp add: users_schema_eval database_schemas_section_def schema_lines_def column_row_def
      str_ev)

text \<open>
  Claim C3 as stated fails: the columns reported are not the two non-nullable ones.
\<close>

theorem primary_key_column_nullable_counterexample:
  "map columns (projr (extract_database_schema users_statement ''src/db.ts'')) \<noteq>
     [[\<lparr>col_name = ''id'', col_type = ''TEXT'', col_nullable = False, col_default = None\<rparr>,
       \<lparr>col_name = ''orgId'', col_type = ''TEXT'', col_nullable = False, col_default = None\<rparr>]]"
  by (simp add: users_schema_eval)

section \<open>Truncated sections\<close>

lemma dict_append_keys: "fst ` set (dict_append d k v) = insert k (fst ` set d)"
  by (induction d) auto

lemma dict_append_distinct: "distinct (map fst d) \<Longrightarrow> distinct (map fst (dict_append d k v))"
proof (induction d)
  case Nil
  then show ?case by simp
next
  case (Cons kv d)
  then show ?case
    using dict_append_keys [of d k v] by (auto simp: image_iff)
qed

lemma dict_append_lookup:
  "distinct (map fst d) \<Longrightarrow>
   map_of (dict_append d k v) =
     (map_of d)(k \<mapsto> (case map_of d k of None \<Rightarrow> [v] | Some vs \<Rightarrow> vs @ [v]))"
proof (induction d)
  case Nil
  then show ?case by simp
next
  case (Cons kv d)
  obtain a b where kv: "kv = (a, b)" by (cases kv)
  show ?case
  proof (cases "a = k")
    case True
    then show ?thesis using kv by (auto simp: fun_eq_iff)
  next
    case False
    then show ?thesis using kv Cons by (auto simp: fun_eq_iff)
  qed
qed

lemma fold_dict_append:
  "distinct (map fst d) \<Longrightarrow>
   distinct (map fst (fold (\<lambda>e d. dict_append d (key e) e) es d))
   \<and> (\<forall>m. map_of (fold (\<lambda>e d. dict_append d (key e) e) es d) m =
        (case map_of d m of
           None \<Rightarrow> (if filter (\<lambda>e. key e = m) es = [] then None
                     else Some (filter (\<lambda>e. key e = m) es))
         | Some vs \<Rightarrow> Some (vs @ filter (\<lambda>e. key e = m) es)))"
proof (induction es arbitrary: d)
  case Nil
  then show ?case by (auto split: option.splits)
next
  case (Cons e es)
  have d': "distinct (map fst (dict_append d (key e) e))"
    using Cons.prems by (rule dict_append_distinct)
  show ?case
    using Cons.IH [OF d'] dict_append_lookup [OF Cons.prems, of "key e" e]
    by (auto split: option.splits)
qed


lemma group_by_method_groups:
  "g \<in> set (group_by_method eps) \<Longrightarrow> snd g = filter (\<lambda>e. ee_method e = fst g) eps"
proof -
  assume g: "g \<in> set (group_by_method eps)"
  have d: "distinct (map fst (group_by_method eps))"
    using fold_dict_append [of "[]" ee_method eps] by (simp add: group_by_method_def)
  from g have "(fst g, snd g) \<in> set (group_by_method eps)" by simp
  with d have "map_of (group_by_method eps) (fst g) = Some (snd g)" by (rule map_of_is_SomeI)
  then show ?thesis
    using fold_dict_append [of "[]" ee_method eps]
    by (auto simp: group_by_method_def split: if_splits)
qed







section \<open>What the recognizers return and what they write\<close>

























































end
